theory Spec2Isabelle
  imports Main
begin

section \<open>The collaborative snippet editor: the component \<open>App\<close> of \<open>src/main.jsx\<close>\<close>

text \<open>
  \<open>App\<close> is a React function component. Its state variables (\<open>useState\<close>), the
  global \<open>window.saveTimer\<close>, the listener registered with \<open>onSnapshot\<close>, the
  \<open>setDoc\<close> calls that have not resolved yet and the remote Firestore documents are the
  fields of one record; every handler of the component is a function from that record to
  the record after the handler has run.

  Every render of \<open>App\<close> creates its handlers afresh, and a handler reads the state
  variables \<open>db\<close>, \<open>userId\<close>, \<open>snippetId\<close>, \<open>code\<close> and \<open>isSaving\<close> of the render that
  created it: they are \<open>const\<close> bindings of that call of \<open>App\<close>. A handler is therefore
  modelled as a function of the values it has captured (a record \<open>env\<close>) and of the
  current state, which the state setters update. The editor and the room input call the
  handlers of the latest render; the timeout callback, the continuation of an awaited
  \<open>setDoc\<close> and the \<open>onSnapshot\<close> listener keep the values of the render in which they
  were created.

  Strings are sequences of characters with codes below 256.

  \<open>doc\<close> of the Firestore SDK builds a document reference from path arguments: it
  throws when an argument contains \<open>//\<close>, splits every argument at \<open>/\<close>, drops the empty
  segments and throws unless the number of segments is even (and throws when its first
  argument is no Firestore instance). A throw inside the subscription effect is not
  caught by any error boundary, so React removes the whole tree; a throw at the first
  line of \<open>saveToFirestore\<close> rejects its promise before any setter has been called.
\<close>

subsection \<open>JavaScript values and Firestore documents\<close>

datatype jsval =
  JStr string
  | JNum int
  | JBool bool
  | JNull
  | JTimestamp nat
  | JServerTimestamp

text \<open>Truthiness of a field read from a document; a missing field reads \<open>undefined\<close>.\<close>

fun truthy :: "jsval option \<Rightarrow> bool" where
  "truthy None = False"
| "truthy (Some (JStr s)) = (s \<noteq> [])"
| "truthy (Some (JNum n)) = (n \<noteq> 0)"
| "truthy (Some (JBool b)) = b"
| "truthy (Some JNull) = False"
| "truthy (Some (JTimestamp t)) = True"
| "truthy (Some JServerTimestamp) = True"

type_synonym document = "string \<rightharpoonup> jsval"

datatype firestore = FirestoreDb

datatype sdk_error = InvalidArgument

text \<open>\<open>p.split('/')\<close>.\<close>

fun splitSlash :: "string \<Rightarrow> string list" where
  "splitSlash [] = [[]]"
| "splitSlash (c # cs) =
     (if c = CHR ''/'' then [] # splitSlash cs
      else (case splitSlash cs of [] \<Rightarrow> [[c]] | w # ws \<Rightarrow> (c # w) # ws))"

definition pathSegments :: "string \<Rightarrow> string list" where
  "pathSegments p = filter (\<lambda>seg. 0 < length seg) (splitSlash p)"

text \<open>\<open>p.indexOf('//') >= 0\<close>.\<close>

fun hasDoubleSlash :: "string \<Rightarrow> bool" where
  "hasDoubleSlash (a # b # cs) = ((a = CHR ''/'' \<and> b = CHR ''/'') \<or> hasDoubleSlash (b # cs))"
| "hasDoubleSlash cs = False"

text \<open>\<open>doc(firestore, path, ...pathSegments)\<close> of the SDK, on the list of its path
  arguments.\<close>

definition doc :: "firestore option \<Rightarrow> string list \<Rightarrow> sdk_error + string list" where
  "doc d args =
     (if d = None then Inl InvalidArgument
      else if list_ex hasDoubleSlash args then Inl InvalidArgument
      else
        let segments = concat (map pathSegments args)
        in if even (length segments) then Inr segments else Inl InvalidArgument)"

record setDocCall =
  call_ref :: "string list"
  call_data :: "(string \<times> jsval) list"
  call_merge :: bool

text \<open>What the server stores for a written field: the sentinel \<open>serverTimestamp()\<close> becomes
  the server's time \<open>t\<close>.\<close>

fun stored :: "nat \<Rightarrow> jsval \<Rightarrow> jsval" where
  "stored t JServerTimestamp = JTimestamp t"
| "stored t v = v"

fun writeFields :: "nat \<Rightarrow> (string \<times> jsval) list \<Rightarrow> document \<Rightarrow> document" where
  "writeFields t [] d = d"
| "writeFields t ((k, v) # kvs) d = writeFields t kvs (d(k \<mapsto> stored t v))"

text \<open>\<open>setDoc(ref, data, {merge: true})\<close> keeps the fields that \<open>data\<close> does not name;
  without \<open>merge\<close> the document is replaced.\<close>

definition applySetDoc ::
  "nat \<Rightarrow> setDocCall \<Rightarrow> (string list \<rightharpoonup> document) \<Rightarrow> (string list \<rightharpoonup> document)" where
  "applySetDoc t c st =
     (let base = (case st (call_ref c) of
                    None \<Rightarrow> Map.empty
                  | Some d \<Rightarrow> if call_merge c then d else Map.empty)
      in st(call_ref c \<mapsto> writeFields t (call_data c) base))"

subsection \<open>State\<close>

text \<open>The values a closure created during a render has captured.\<close>

record env =
  e_db :: "firestore option"
  e_userId :: "string option"
  e_snippetId :: string
  e_code :: jsval
  e_isSaving :: bool

text \<open>
  \<open>saveTimer\<close> is the pending timeout registered under \<open>window.saveTimer\<close>: the time left
  until it fires, and the values its callback \<open>() => saveToFirestore(newCode)\<close> has
  captured. \<open>listener\<close> is the active \<open>onSnapshot\<close> listener of the subscription effect.
  \<open>inflight\<close> holds the \<open>setDoc\<close> calls awaited by \<open>saveToFirestore\<close>, oldest first,
  each with the \<open>snippetId\<close> its continuation has captured. \<open>global_app_id\<close> is the global
  \<open>__app_id\<close>, \<open>None\<close> when it is undefined. \<open>mounted\<close> tells whether React still shows
  the component; once it is removed nothing reads the state variables any more, and the
  model lets the setters go on writing them. The state variable \<open>auth\<close> is never read and
  is left out.
\<close>

record app =
  global_app_id :: "string option"
  db :: "firestore option"
  userId :: "string option"
  snippetId :: string
  code :: jsval
  isSaving :: bool
  status :: string
  isInitialized :: bool
  saveTimer :: "(nat \<times> env \<times> jsval) option"
  listener :: "env option"
  inflight :: "(string \<times> setDocCall) list"
  store :: "string list \<rightharpoonup> document"
  mounted :: bool

definition appId :: "app \<Rightarrow> string" where
  "appId s = (case global_app_id s of None \<Rightarrow> ''default-collaboration-app'' | Some a \<Rightarrow> a)"

definition getSnippetDocRef ::
  "string \<Rightarrow> firestore option \<Rightarrow> string \<Rightarrow> sdk_error + string list" where
  "getSnippetDocRef aid d sid = doc d [''artifacts'', aid, ''public'', ''data'', ''snippets'', sid]"

definition initialCode :: jsval where
  "initialCode = JStr (''// Start writing your collaborative code here!'' @ [CHR 0x0A, CHR 0x0A]
       @ ''function helloWorld() {'' @ [CHR 0x0A]
       @ ''  return '' @ [CHR 0x22] @ ''Hello, Collaborator!'' @ [CHR 0x22] @ '';'' @ [CHR 0x0A]
       @ ''}'')"

definition initialState :: "string option \<Rightarrow> (string list \<rightharpoonup> document) \<Rightarrow> app" where
  "initialState gid st =
     \<lparr> global_app_id = gid, db = None, userId = None, snippetId = ''welcome-snippet'',
       code = initialCode, isSaving = False, status = ''Initializing...'',
       isInitialized = False, saveTimer = None, listener = None, inflight = [],
       store = st, mounted = True \<rparr>"

text \<open>The state variables as a render of \<open>App\<close> binds them.\<close>

definition render :: "app \<Rightarrow> env" where
  "render s = \<lparr> e_db = db s, e_userId = userId s, e_snippetId = snippetId s,
                e_code = code s, e_isSaving = isSaving s \<rparr>"

text \<open>\<open>!userId\<close>: \<open>null\<close> and the empty string are falsy.\<close>

fun noUser :: "string option \<Rightarrow> bool" where
  "noUser None = True"
| "noUser (Some u) = (u = [])"

fun uidValue :: "string option \<Rightarrow> jsval" where
  "uidValue None = JNull"
| "uidValue (Some u) = JStr u"

subsection \<open>Saving\<close>

definition setDoc :: "string \<Rightarrow> setDocCall \<Rightarrow> app \<Rightarrow> app" where
  "setDoc sid c s = s\<lparr>inflight := inflight s @ [(sid, c)]\<rparr>"

text \<open>\<open>saveToFirestore\<close> up to its \<open>await setDoc(...)\<close>. When \<open>getSnippetDocRef\<close>
  throws, the promise is rejected and nothing has happened.\<close>

definition saveToFirestore :: "env \<Rightarrow> jsval \<Rightarrow> app \<Rightarrow> app" where
  "saveToFirestore e content s =
     (case getSnippetDocRef (appId s) (e_db e) (e_snippetId e) of
        Inl err \<Rightarrow> s
      | Inr snippetRef \<Rightarrow>
          let s1 = s\<lparr>isSaving := True\<rparr>;
              s2 = s1\<lparr>status := ''Saving changes to Firestore...''\<rparr>
          in setDoc (e_snippetId e)
               \<lparr> call_ref = snippetRef,
                 call_data = [(''content'', content),
                              (''lastEditedBy'', uidValue (e_userId e)),
                              (''timestamp'', JServerTimestamp)],
                 call_merge = True \<rparr> s2)"

text \<open>The rest of \<open>saveToFirestore\<close>, once the awaited \<open>setDoc\<close> has resolved (\<open>ok\<close>) or
  rejected: the \<open>try\<close> or the \<open>catch\<close> branch, then \<open>finally\<close>.\<close>

definition saveToFirestore_resume :: "string \<Rightarrow> bool \<Rightarrow> app \<Rightarrow> app" where
  "saveToFirestore_resume sid ok s =
     (let s1 = (if ok then s\<lparr>status := ''Changes saved successfully to room: '' @ sid\<rparr>
                else s\<lparr>status := ''Error: Failed to save changes.''\<rparr>)
      in s1\<lparr>isSaving := False\<rparr>)"

datatype outcome = Resolved nat | Rejected

text \<open>The oldest awaited \<open>setDoc\<close> settles: the server applies it at its time \<open>t\<close>, or the
  write fails.\<close>

definition settle :: "outcome \<Rightarrow> app \<Rightarrow> app" where
  "settle out s =
     (case inflight s of
        [] \<Rightarrow> s
      | (sid, c) # rest \<Rightarrow>
          (case out of
             Resolved t \<Rightarrow>
               saveToFirestore_resume sid True
                 (s\<lparr>inflight := rest, store := applySetDoc t c (store s)\<rparr>)
           | Rejected \<Rightarrow> saveToFirestore_resume sid False (s\<lparr>inflight := rest\<rparr>)))"

definition handleSaveCode :: "env \<Rightarrow> jsval \<Rightarrow> bool \<Rightarrow> app \<Rightarrow> app" where
  "handleSaveCode e newCode debounce s =
     (if e_db e = None \<or> noUser (e_userId e) then s
      else
        let s1 = s\<lparr>code := newCode\<rparr>
        in if debounce then s1\<lparr>saveTimer := Some (1000, e, newCode)\<rparr>
           else saveToFirestore e newCode s1)"

text \<open>\<open>d\<close> time units pass and no other event happens; the pending timeout fires when its
  delay is over.\<close>

definition advance :: "nat \<Rightarrow> app \<Rightarrow> app" where
  "advance d s =
     (case saveTimer s of
        None \<Rightarrow> s
      | Some (r, e, newCode) \<Rightarrow>
          if d < r then s\<lparr>saveTimer := Some (r - d, e, newCode)\<rparr>
          else saveToFirestore e newCode (s\<lparr>saveTimer := None\<rparr>))"

text \<open>\<open>onChange={handleSaveCode}\<close> of the editor: the second argument is the editor's
  update object, which is truthy.\<close>

definition editorOnChange :: "jsval \<Rightarrow> app \<Rightarrow> app" where
  "editorOnChange newCode s = handleSaveCode (render s) newCode True s"

subsection \<open>The subscription\<close>

definition onSnapshotNext :: "env \<Rightarrow> document option \<Rightarrow> app \<Rightarrow> app" where
  "onSnapshotNext e snap s =
     (case snap of
        Some data \<Rightarrow>
          if \<not> e_isSaving e \<and> truthy (data ''content'')
          then s\<lparr>code := the (data ''content''),
                 status := ''Real-time update received in room: '' @ e_snippetId e\<rparr>
          else s
      | None \<Rightarrow>
          (handleSaveCode e (e_code e) False s)
            \<lparr>status := ''New collaboration room created: '' @ e_snippetId e\<rparr>)"

definition onSnapshotError :: "env \<Rightarrow> app \<Rightarrow> app" where
  "onSnapshotError e s = s\<lparr>status := ''Error loading room '' @ e_snippetId e @ ''.''\<rparr>"

text \<open>The store notifies the active listener, if there is one.\<close>

definition notify :: "document option \<Rightarrow> app \<Rightarrow> app" where
  "notify snap s = (case listener s of None \<Rightarrow> s | Some e \<Rightarrow> onSnapshotNext e snap s)"

text \<open>React removes the component: the cleanup of the effect unsubscribes.\<close>

definition unmount :: "app \<Rightarrow> app" where
  "unmount s = s\<lparr>listener := None, mounted := False\<rparr>"

text \<open>The second effect: the cleanup of its previous run (\<open>unsubscribe\<close>), then its body.
  When \<open>getSnippetDocRef\<close> throws, the tree is removed.\<close>

definition subscriptionEffect :: "app \<Rightarrow> app" where
  "subscriptionEffect s =
     (let s0 = s\<lparr>listener := None\<rparr>
      in if db s = None \<or> noUser (userId s) then s0
         else
           let s1 = s0\<lparr>status := ''Subscribing to room: '' @ snippetId s\<rparr>
           in case getSnippetDocRef (appId s) (db s) (snippetId s) of
                Inl err \<Rightarrow> unmount s1
              | Inr snippetRef \<Rightarrow> s1\<lparr>listener := Some (render s)\<rparr>)"

text \<open>After a state update React renders again and runs the effect when one of
  \<open>[db, userId, snippetId]\<close> has changed.\<close>

definition rerender :: "app \<Rightarrow> app \<Rightarrow> app" where
  "rerender old new =
     (if db new = db old \<and> userId new = userId old \<and> snippetId new = snippetId old
      then new else subscriptionEffect new)"

subsection \<open>Initialisation and authentication\<close>

definition mount :: "string option \<Rightarrow> (string list \<rightharpoonup> document) \<Rightarrow> bool \<Rightarrow> app" where
  "mount gid st initOk =
     (let s = initialState gid st
      in if initOk then rerender s (s\<lparr>db := Some FirestoreDb\<rparr>)
         else s\<lparr>status := ''Error: Could not initialize Firebase.''\<rparr>)"

definition onAuthStateChanged :: "string option \<Rightarrow> app \<Rightarrow> app" where
  "onAuthStateChanged user s =
     (case user of
        Some uid \<Rightarrow>
          rerender s (s\<lparr>userId := Some uid,
                        status := ''Authenticated as: '' @ take 8 uid @ ''...'',
                        isInitialized := True\<rparr>)
      | None \<Rightarrow> rerender s (s\<lparr>userId := None, status := ''Authentication failed.''\<rparr>))"

subsection \<open>The room input\<close>

definition setSnippetId :: "string \<Rightarrow> app \<Rightarrow> app" where
  "setSnippetId v s = rerender s (s\<lparr>snippetId := v\<rparr>)"

text \<open>\<open>onChange\<close> of the room input.\<close>

definition roomInputOnChange :: "string \<Rightarrow> app \<Rightarrow> app" where
  "roomInputOnChange v s = setSnippetId v s"

text \<open>White space of \<open>String.prototype.trim\<close> among the characters below 256: tab, line
  feed, vertical tab, form feed, carriage return, space and no-break space.\<close>

definition isWhiteSpace :: "char \<Rightarrow> bool" where
  "isWhiteSpace c = (of_char c \<in> {9, 10, 11, 12, 13, 32, 160 :: nat})"

definition trim :: "string \<Rightarrow> string" where
  "trim v = rev (dropWhile isWhiteSpace (rev (dropWhile isWhiteSpace v)))"

text \<open>The class \<open>[a-z0-9-]\<close> under the flag \<open>i\<close>, on character codes: a character
  matches when its canonical (upper-case) form is the canonical form of a member of the
  class. Without the flag \<open>u\<close> only \<open>a\<close> to \<open>z\<close> have another canonical form among
  the codes below 128, and no code from 128 on is mapped below 128.\<close>

definition canonicalize :: "nat \<Rightarrow> nat" where
  "canonicalize n = (if 97 \<le> n \<and> n \<le> 122 then n - 32 else n)"

definition classCodes :: "nat list" where
  "classCodes = [97 ..< 123] @ [48 ..< 58] @ [45]"

definition classMatches :: "char \<Rightarrow> bool" where
  "classMatches c = list_ex (\<lambda>a. canonicalize a = canonicalize (of_char c)) classCodes"

text \<open>\<open>newId.match(/^[a-z0-9-]+$/i)\<close> is not \<open>null\<close>.\<close>

definition matchesRoomPattern :: "string \<Rightarrow> bool" where
  "matchesRoomPattern v = (v \<noteq> [] \<and> list_all classMatches v)"

definition handleRoomChange :: "string \<Rightarrow> app \<Rightarrow> app" where
  "handleRoomChange v s =
     (let newId = trim v
      in if newId \<noteq> [] \<and> length newId < 50 \<and> matchesRoomPattern newId
         then setSnippetId newId s
         else s\<lparr>status := ''Room ID must be alphanumeric/hyphenated and non-empty.''\<rparr>)"

text \<open>\<open>onBlur={handleRoomChange}\<close> of the room input: the input is controlled by
  \<open>value={snippetId}\<close>, so the value of the event is the current \<open>snippetId\<close>.\<close>

definition roomInputOnBlur :: "app \<Rightarrow> app" where
  "roomInputOnBlur s = handleRoomChange (snippetId s) s"

subsection \<open>Scenarios and notions used by the properties\<close>

text \<open>A burst of edits in the editor: each pair is the time since the previous edit and the
  new content of the buffer.\<close>

fun typing :: "(nat \<times> jsval) list \<Rightarrow> app \<Rightarrow> app" where
  "typing [] s = s"
| "typing ((d, c) # es) s = typing es (editorOnChange c (advance d s))"

text \<open>The awaited write of content \<open>c\<close> by user \<open>uid\<close> to the document \<open>ref\<close> of room
  \<open>sid\<close>.\<close>

definition saveCall ::
  "string list \<Rightarrow> string \<Rightarrow> string option \<Rightarrow> jsval \<Rightarrow> string \<times> setDocCall" where
  "saveCall ref sid uid c =
     (sid, \<lparr> call_ref = ref,
             call_data = [(''content'', c),
                          (''lastEditedBy'', (case uid of None \<Rightarrow> JNull | Some u \<Rightarrow> JStr u)),
                          (''timestamp'', JServerTimestamp)],
             call_merge = True \<rparr>)"

text \<open>A path argument that is one segment.\<close>

definition oneSegment :: "string \<Rightarrow> bool" where
  "oneSegment a = (0 < length a \<and> CHR ''/'' \<notin> set a)"

text \<open>In \<open>s'\<close> a save of \<open>c\<close> is scheduled a full delay ahead, for the room and the user of
  \<open>s\<close>, and nothing has been written since \<open>s\<close>.\<close>

definition scheduled :: "app \<Rightarrow> jsval \<Rightarrow> app \<Rightarrow> bool" where
  "scheduled s c s' =
     (db s' = db s \<and> userId s' = userId s \<and> snippetId s' = snippetId s
      \<and> global_app_id s' = global_app_id s \<and> inflight s' = inflight s
      \<and> (case saveTimer s' of
            None \<Rightarrow> False
          | Some (r, e, c') \<Rightarrow>
              r = 1000 \<and> c' = c \<and> e_db e = db s \<and> e_snippetId e = snippetId s
              \<and> e_userId e = userId s))"

text \<open>The room identifiers of the specification: one to 49 letters, digits and hyphens.\<close>

definition roomAlphabet :: string where
  "roomAlphabet = ''abcdefghijklmnopqrstuvwxyzABCDEFGHIJKLMNOPQRSTUVWXYZ0123456789-''"

definition validRoomId :: "string \<Rightarrow> bool" where
  "validRoomId t = (t \<noteq> [] \<and> length t < 50 \<and> set t \<subseteq> set roomAlphabet)"

text \<open>A client that has initialised Firebase and signed in as \<open>u1\<close>; the same client after
  the authentication state has changed back to no user; and the signed-in client once
  the timeout of an edit has fired, its write still awaited.\<close>

definition signedIn :: app where
  "signedIn = onAuthStateChanged (Some ''u1'') (mount None Map.empty True)"

definition signedOut :: app where
  "signedOut = onAuthStateChanged None signedIn"

definition saving :: app where
  "saving = advance 1000 (editorOnChange (JStr ''mine'') signedIn)"

section \<open>Properties\<close>

subsection \<open>Document paths\<close>

lemma splitSlash_not_Nil: "splitSlash p \<noteq> []"
  by (induction p) (auto split: list.splits)

lemma splitSlash_no_slash: "CHR ''/'' \<notin> set a \<Longrightarrow> splitSlash a = [a]"
  by (induction a) auto

lemma splitSlash_slash: "splitSlash (a @ CHR ''/'' # b) = splitSlash a @ splitSlash b"
proof (induction a)
  case Nil
  show ?case by simp
next
  case (Cons c a)
  obtain w ws where w: "splitSlash a = w # ws"
    using splitSlash_not_Nil[of a] by (cases "splitSlash a") auto
  show ?case using Cons w by simp
qed

lemma pathSegments_slash: "pathSegments (a @ CHR ''/'' # b) = pathSegments a @ pathSegments b"
  by (simp add: pathSegments_def splitSlash_slash)

lemma pathSegments_one: "oneSegment a \<Longrightarrow> pathSegments a = [a]"
  by (simp add: oneSegment_def pathSegments_def splitSlash_no_slash)

lemma hasDoubleSlash_no_slash: "CHR ''/'' \<notin> set a \<Longrightarrow> \<not> hasDoubleSlash a"
  by (induction a rule: hasDoubleSlash.induct) auto

lemma fixed_segments:
  "pathSegments ''artifacts'' = [''artifacts'']" "pathSegments ''public'' = [''public'']"
  "pathSegments ''data'' = [''data'']" "pathSegments ''snippets'' = [''snippets'']"
  "\<not> hasDoubleSlash ''artifacts''" "\<not> hasDoubleSlash ''public''"
  "\<not> hasDoubleSlash ''data''" "\<not> hasDoubleSlash ''snippets''"
  by (simp_all add: pathSegments_one oneSegment_def hasDoubleSlash_no_slash)

text \<open>The reference that is built is the document denoted by the path
  \<open>artifacts/{appId}/public/data/snippets/{snippetId}\<close>.\<close>

lemma getSnippetDocRef_path:
  assumes "getSnippetDocRef aid d sid = Inr ref"
  shows "ref = pathSegments (''artifacts/'' @ aid @ ''/public/data/snippets/'' @ sid)"
proof -
  have "pathSegments (''artifacts/'' @ aid @ ''/public/data/snippets/'' @ sid)
      = pathSegments ''artifacts'' @ pathSegments aid @ pathSegments ''public''
        @ pathSegments ''data'' @ pathSegments ''snippets'' @ pathSegments sid"
    using pathSegments_slash[of "''artifacts''" "aid @ ''/public/data/snippets/'' @ sid"]
      pathSegments_slash[of aid "''public/data/snippets/'' @ sid"]
      pathSegments_slash[of "''public''" "''data/snippets/'' @ sid"]
      pathSegments_slash[of "''data''" "''snippets/'' @ sid"]
      pathSegments_slash[of "''snippets''" sid]
    by simp
  moreover have "ref = pathSegments ''artifacts'' @ pathSegments aid @ pathSegments ''public''
        @ pathSegments ''data'' @ pathSegments ''snippets'' @ pathSegments sid"
    using assms by (auto simp: getSnippetDocRef_def doc_def Let_def split: if_splits)
  ultimately show ?thesis by simp
qed

lemma getSnippetDocRef_single:
  assumes "d \<noteq> None" "oneSegment aid" "oneSegment sid"
  shows "getSnippetDocRef aid d sid
           = Inr [''artifacts'', aid, ''public'', ''data'', ''snippets'', sid]"
  using assms
  by (simp add: getSnippetDocRef_def doc_def fixed_segments pathSegments_one
        hasDoubleSlash_no_slash oneSegment_def)


lemma validRoomId_oneSegment: "validRoomId t \<Longrightarrow> oneSegment t"
  by (auto simp: validRoomId_def oneSegment_def roomAlphabet_def)

subsection \<open>Auxiliary facts\<close>

lemmas app_defs = handleSaveCode_def saveToFirestore_def setDoc_def settle_def
  saveToFirestore_resume_def advance_def editorOnChange_def onSnapshotNext_def notify_def
  subscriptionEffect_def rerender_def unmount_def mount_def onAuthStateChanged_def
  setSnippetId_def roomInputOnChange_def render_def initialState_def appId_def

lemma default_refs:
  "getSnippetDocRef ''default-collaboration-app'' (Some FirestoreDb) ''welcome-snippet''
     = Inr [''artifacts'', ''default-collaboration-app'', ''public'', ''data'', ''snippets'',
            ''welcome-snippet'']"
  "getSnippetDocRef ''default-collaboration-app'' (Some FirestoreDb) ''room-2''
     = Inr [''artifacts'', ''default-collaboration-app'', ''public'', ''data'', ''snippets'',
            ''room-2'']"
  "getSnippetDocRef ''default-collaboration-app'' (Some FirestoreDb) ''a b''
     = Inr [''artifacts'', ''default-collaboration-app'', ''public'', ''data'', ''snippets'',
            ''a b'']"
  "getSnippetDocRef ''default-collaboration-app'' (Some FirestoreDb) ''../etc''
     = Inl InvalidArgument"
  "getSnippetDocRef ''default-collaboration-app'' None ''welcome-snippet''
     = Inl InvalidArgument"
  "getSnippetDocRef ''default-collaboration-app'' (Some FirestoreDb) '''' = Inl InvalidArgument"
  "getSnippetDocRef ''default-collaboration-app'' (Some FirestoreDb) ''room-2/''
     = Inr [''artifacts'', ''default-collaboration-app'', ''public'', ''data'', ''snippets'',
            ''room-2'']"
  "getSnippetDocRef ''default-collaboration-app'' (Some FirestoreDb) ''a/b/c''
     = Inr [''artifacts'', ''default-collaboration-app'', ''public'', ''data'', ''snippets'',
            ''a'', ''b'', ''c'']"
  "getSnippetDocRef ''default-collaboration-app'' (Some FirestoreDb) ''a//b''
     = Inl InvalidArgument"
  by (simp_all add: getSnippetDocRef_single oneSegment_def)
     (simp_all add: getSnippetDocRef_def doc_def fixed_segments pathSegments_one oneSegment_def
        hasDoubleSlash_no_slash pathSegments_def)

lemma signedIn_simps:
  "db signedIn = Some FirestoreDb" "userId signedIn = Some ''u1''"
  "snippetId signedIn = ''welcome-snippet''" "inflight signedIn = []"
  "global_app_id signedIn = None" "code signedIn = initialCode"
  "saveTimer signedIn = None" "isSaving signedIn = False"
  "isInitialized signedIn = True" "mounted signedIn = True"
  "listener signedIn = Some (render signedIn)"
  by (simp_all add: signedIn_def app_defs default_refs)

lemma signedOut_simps:
  "db signedOut = Some FirestoreDb" "userId signedOut = None" "code signedOut = initialCode"
  "saveTimer signedOut = None" "isInitialized signedOut = True" "inflight signedOut = []"
  "mounted signedOut = True"
  by (simp_all add: signedOut_def signedIn_def app_defs default_refs)

text \<open>A listener is registered only for a room whose path the SDK accepts.\<close>

lemma subscribed_accepted:
  assumes "listener (subscriptionEffect s) = Some e"
  shows "\<exists>ref. getSnippetDocRef (appId s) (db s) (snippetId s) = Inr ref"
  using assms
  by (auto simp: subscriptionEffect_def unmount_def Let_def split: if_splits sum.splits)

lemma saveToFirestore_accepted:
  assumes "getSnippetDocRef (appId s) (e_db e) (e_snippetId e) = Inr ref"
  shows "saveToFirestore e c s
           = s\<lparr>isSaving := True, status := ''Saving changes to Firestore...'',
               inflight := inflight s @ [saveCall ref (e_snippetId e) (e_userId e) c]\<rparr>"
  using assms
  by (cases "e_userId e") (simp_all add: saveToFirestore_def setDoc_def saveCall_def)

lemma scheduled_edit:
  assumes "db s \<noteq> None" "\<not> noUser (userId s)"
  shows "scheduled s c (editorOnChange c s)"
  using assms by (auto simp: scheduled_def editorOnChange_def handleSaveCode_def render_def)

lemma scheduled_step:
  assumes "db s \<noteq> None" "\<not> noUser (userId s)" "scheduled s c s'" "d < 1000"
  shows "scheduled s c' (editorOnChange c' (advance d s'))"
  using assms
  by (auto simp: scheduled_def editorOnChange_def handleSaveCode_def render_def advance_def
           split: option.splits)

lemma scheduled_typing:
  assumes "db s \<noteq> None" "\<not> noUser (userId s)"
  shows "scheduled s c s' \<Longrightarrow> list_all (\<lambda>(d, c'). d < 1000) es
         \<Longrightarrow> scheduled s (last (c # map snd es)) (typing es s')"
proof (induction es arbitrary: c s')
  case Nil
  then show ?case by simp
next
  case (Cons x es)
  obtain d c' where x: "x = (d, c')" by (cases x)
  from Cons.prems x have d: "d < 1000" and rest: "list_all (\<lambda>(d, c'). d < 1000) es"
    by simp_all
  have "scheduled s c' (editorOnChange c' (advance d s'))"
    using assms Cons.prems(1) d by (rule scheduled_step)
  from Cons.IH[OF this rest] show ?case by (simp add: x)
qed

lemma scheduled_quiet:
  "scheduled s c s' \<Longrightarrow> d < 1000 \<Longrightarrow> inflight (advance d s') = inflight s"
  by (auto simp: scheduled_def advance_def split: option.splits)

lemma scheduled_fires:
  assumes "scheduled s c s'" "getSnippetDocRef (appId s) (db s) (snippetId s) = Inr ref"
  shows "inflight (advance 1000 s') = inflight s @ [saveCall ref (snippetId s) (userId s) c]
       \<and> saveTimer (advance 1000 s') = None"
proof -
  from assms(1) obtain e where t: "saveTimer s' = Some (1000, e, c)"
    and e: "e_snippetId e = snippetId s" "e_userId e = userId s" "e_db e = db s"
    and s': "global_app_id s' = global_app_id s" "inflight s' = inflight s"
    by (auto simp: scheduled_def split: option.splits)
  have "getSnippetDocRef (appId (s'\<lparr>saveTimer := None\<rparr>)) (e_db e) (e_snippetId e) = Inr ref"
    using assms(2) e s' by (simp add: appId_def)
  from saveToFirestore_accepted[OF this] show ?thesis
    using t e s' by (simp add: advance_def)
qed


lemma classMatches_range:
  "classMatches c = (let n = (of_char c :: nat) in
     (97 \<le> n \<and> n \<le> 122) \<or> (65 \<le> n \<and> n \<le> 90) \<or> (48 \<le> n \<and> n \<le> 57) \<or> n = 45)"
proof -
  define n where "n = (of_char c :: nat)"
  have "(\<exists>a. ((97 \<le> a \<and> a < 123) \<or> (48 \<le> a \<and> a < 58) \<or> a = 45)
              \<and> canonicalize a = canonicalize n)
      = ((97 \<le> n \<and> n \<le> 122) \<or> (65 \<le> n \<and> n \<le> 90) \<or> (48 \<le> n \<and> n \<le> 57) \<or> n = 45)"
    (is "?L = ?R")
  proof
    assume ?L
    then show ?R by (auto simp: canonicalize_def split: if_splits)
  next
    assume r: ?R
    show ?L
    proof (cases "65 \<le> n \<and> n \<le> 90")
      case True
      then show ?thesis by (intro exI[of _ "n + 32"]) (simp add: canonicalize_def)
    next
      case False
      with r show ?thesis by (intro exI[of _ n]) auto
    qed
  qed
  moreover have "set classCodes = {a. (97 \<le> a \<and> a < 123) \<or> (48 \<le> a \<and> a < 58) \<or> a = 45}"
    by (auto simp: classCodes_def simp del: upt_rec_numeral)
  ultimately show ?thesis
    by (simp add: classMatches_def list_ex_iff n_def Let_def Bex_def)
qed

lemma roomAlphabet_codes:
  "(of_char ` set roomAlphabet :: nat set) = {97..122} \<union> {65..90} \<union> {48..57} \<union> {45}"
  unfolding roomAlphabet_def
  apply simp
  apply auto
    apply arith+
  done

lemma roomAlphabet_range:
  "(c \<in> set roomAlphabet) = (let n = (of_char c :: nat) in
     (97 \<le> n \<and> n \<le> 122) \<or> (65 \<le> n \<and> n \<le> 90) \<or> (48 \<le> n \<and> n \<le> 57) \<or> n = 45)"
proof -
  have "(c \<in> set roomAlphabet) = ((of_char c :: nat) \<in> of_char ` set roomAlphabet)"
    by (simp add: inj_image_mem_iff inj_on_def)
  then show ?thesis unfolding roomAlphabet_codes by (auto simp: Let_def)
qed

lemma classMatches_alphabet: "classMatches c = (c \<in> set roomAlphabet)"
  by (simp add: classMatches_range roomAlphabet_range)

text \<open>What the listener does when the document is absent and the SDK accepts the path of
  its room: one write is issued at once, of the \<open>code\<close> the listener has captured, which
  also replaces the buffer; the timer is not involved.\<close>

lemma absent_creates_room:
  assumes "listener s = Some e" "\<not> noUser (e_userId e)"
    "getSnippetDocRef (appId s) (e_db e) (e_snippetId e) = Inr ref"
  shows "inflight (notify None s)
           = inflight s @ [saveCall ref (e_snippetId e) (e_userId e) (e_code e)]
       \<and> code (notify None s) = e_code e
       \<and> saveTimer (notify None s) = saveTimer s"
proof -
  have d: "e_db e \<noteq> None"
    using assms(3) by (auto simp: getSnippetDocRef_def doc_def split: if_splits)
  have "getSnippetDocRef (appId (s\<lparr>code := e_code e\<rparr>)) (e_db e) (e_snippetId e) = Inr ref"
    using assms(3) by (simp add: appId_def)
  from saveToFirestore_accepted[OF this] show ?thesis
    using assms(1,2) d by (auto simp: notify_def onSnapshotNext_def handleSaveCode_def)
qed

text \<open>\<open>handleRoomChange\<close> by itself: a candidate is accepted exactly when, trimmed, it is a
  room identifier; otherwise only the status changes.\<close>

lemma handleRoomChange_validates:
  "(validRoomId (trim v) \<longrightarrow>
      handleRoomChange v s = setSnippetId (trim v) s
      \<and> snippetId (handleRoomChange v s) = trim v)
   \<and> (\<not> validRoomId (trim v) \<longrightarrow>
      handleRoomChange v s
        = s\<lparr>status := ''Room ID must be alphanumeric/hyphenated and non-empty.''\<rparr>)"
proof -
  have "matchesRoomPattern t = (t \<noteq> [] \<and> set t \<subseteq> set roomAlphabet)" for t
    by (auto simp: matchesRoomPattern_def list_all_iff classMatches_alphabet)
  then have "(trim v \<noteq> [] \<and> length (trim v) < 50 \<and> matchesRoomPattern (trim v))
             = validRoomId (trim v)"
    by (auto simp: validRoomId_def)
  then show ?thesis
    by (auto simp: handleRoomChange_def Let_def setSnippetId_def rerender_def
          subscriptionEffect_def unmount_def split: sum.splits)
qed

text \<open>\<open>onChange\<close> of the room input sets \<open>snippetId\<close> to whatever has been typed, before
  \<open>handleRoomChange\<close> sees it on blur.\<close>

lemma roomInputOnChange_sets_room: "snippetId (roomInputOnChange v s) = v"
  by (simp add: roomInputOnChange_def setSnippetId_def rerender_def subscriptionEffect_def
        unmount_def Let_def split: sum.splits)

subsection \<open>The claims\<close>

text \<open>
  C1. Coalescing. The client has its store handle and its user, and the SDK accepts the
  path of its room, as it does whenever the client is subscribed. An edit in the editor
  is followed by further edits, each less than 1000 time units after the one before. Then
  no write is issued until 1000 time units have passed since the last edit; at that
  moment exactly one write is issued, to the client's room, carrying the content of the
  last edit; and no timeout is left pending, so the earlier contents are never written.
\<close>

theorem coalescing:
  assumes "db s \<noteq> None" "\<not> noUser (userId s)" "list_all (\<lambda>(d, c'). d < 1000) es"
    "getSnippetDocRef (appId s) (db s) (snippetId s) = Inr ref"
  shows "(\<forall>d<1000. inflight (advance d (typing es (editorOnChange c s))) = inflight s)
       \<and> inflight (advance 1000 (typing es (editorOnChange c s)))
           = inflight s @ [saveCall ref (snippetId s) (userId s) (last (c # map snd es))]
       \<and> saveTimer (advance 1000 (typing es (editorOnChange c s))) = None"
proof -
  have "scheduled s (last (c # map snd es)) (typing es (editorOnChange c s))"
    using assms(1,2) scheduled_edit[OF assms(1,2)] assms(3) by (rule scheduled_typing)
  then show ?thesis
    using scheduled_quiet scheduled_fires[OF _ assms(4)] by blast
qed

theorem coalescing_witness:
  "db signedIn \<noteq> None \<and> \<not> noUser (userId signedIn)
   \<and> list_all (\<lambda>(d, c'). d < 1000) [(200 :: nat, JStr ''xy'')]
   \<and> getSnippetDocRef (appId signedIn) (db signedIn) (snippetId signedIn)
       = Inr [''artifacts'', ''default-collaboration-app'', ''public'', ''data'', ''snippets'',
              ''welcome-snippet'']
   \<and> inflight (advance 999 (typing [(200, JStr ''xy'')] (editorOnChange (JStr ''x'') signedIn)))
       = []
   \<and> inflight (advance 1000 (typing [(200, JStr ''xy'')] (editorOnChange (JStr ''x'') signedIn)))
       = [saveCall [''artifacts'', ''default-collaboration-app'', ''public'', ''data'',
                    ''snippets'', ''welcome-snippet'']
            ''welcome-snippet'' (Some ''u1'') (JStr ''xy'')]"
  using coalescing[of signedIn "[(200, JStr ''xy'')]"
      "[''artifacts'', ''default-collaboration-app'', ''public'', ''data'', ''snippets'',
        ''welcome-snippet'']" "JStr ''x''"]
  by (simp add: signedIn_simps appId_def default_refs)

text \<open>
  C2. Self-echo suppression, evaluated on the code. The listener reads the \<open>isSaving\<close> of
  the render that registered it. A client signs in and subscribes while nothing is being
  saved, edits, and its timeout fires: while \<open>isSaving\<close> is true a notification with the
  content \<open>theirs\<close> replaces the buffer \<open>mine\<close>. If the room is switched during that save,
  the new listener has captured \<open>isSaving = true\<close>: after the save has resolved and
  \<open>isSaving\<close> is false, a notification with the content \<open>theirs\<close> is still ignored.
\<close>

theorem echo_guard_reads_captured_flag:
  "isSaving saving \<and> code saving = JStr ''mine''
   \<and> code (notify (Some [''content'' \<mapsto> JStr ''theirs'']) saving) = JStr ''theirs''
   \<and> \<not> isSaving (settle (Resolved 7) (roomInputOnChange ''room-2'' saving))
   \<and> code (notify (Some [''content'' \<mapsto> JStr ''theirs''])
              (settle (Resolved 7) (roomInputOnChange ''room-2'' saving))) = JStr ''mine''"
  by (simp add: saving_def signedIn_def app_defs default_refs)

text \<open>
  C3. Room creation on absence, evaluated on the code. The listener commits the \<open>code\<close> of
  the render that registered it. A client signs in and subscribes with the initial
  buffer, the user types \<open>typed\<close>, and then the first notification reports the document
  absent: exactly one write is issued at once, but its content is the initial buffer, not
  \<open>typed\<close>, and the buffer is set back to the initial content.
\<close>

theorem absent_commits_captured_code:
  "code (editorOnChange (JStr ''typed'') signedIn) = JStr ''typed''
   \<and> inflight (notify None (editorOnChange (JStr ''typed'') signedIn))
       = [saveCall [''artifacts'', ''default-collaboration-app'', ''public'', ''data'',
                    ''snippets'', ''welcome-snippet'']
            ''welcome-snippet'' (Some ''u1'') initialCode]
   \<and> code (notify None (editorOnChange (JStr ''typed'') signedIn)) = initialCode"
  by (simp add: signedIn_def app_defs saveCall_def default_refs)


text \<open>
  C4. A commit whose document reference is built sets \<open>isSaving\<close> and then issues its
  merge-write of \<open>content\<close>, \<open>lastEditedBy\<close> (the user) and the server timestamp; when a
  write settles, resolved or rejected, \<open>isSaving\<close> is false, whatever other writes are
  awaited. When a write is rejected the status reports the error and nothing else
  changes: no write is issued again, no timeout is set and the buffer keeps its content.
  When the reference cannot be built the promise is rejected before anything has
  happened: no flag is set and no write is issued.
\<close>

theorem saveToFirestore_flag:
  "(case getSnippetDocRef (appId s) (e_db e) (e_snippetId e) of
      Inl err \<Rightarrow> saveToFirestore e c s = s
    | Inr ref \<Rightarrow>
        isSaving (saveToFirestore e c s)
        \<and> (\<exists>s1. isSaving s1 \<and> inflight s1 = inflight s \<and> store s1 = store s
               \<and> code s1 = code s
               \<and> saveToFirestore e c s =
                   setDoc (e_snippetId e)
                     \<lparr> call_ref = ref,
                       call_data =
                         [(''content'', c),
                          (''lastEditedBy'',
                           (case e_userId e of None \<Rightarrow> JNull | Some u \<Rightarrow> JStr u)),
                          (''timestamp'', JServerTimestamp)],
                       call_merge = True \<rparr> s1)
        \<and> \<not> isSaving (settle out (saveToFirestore e c s)))
   \<and> (\<forall>s'. 0 < length (inflight s') \<longrightarrow> \<not> isSaving (settle out s'))
   \<and> (\<forall>s' sid call rest.
         inflight s' = (sid, call) # rest \<longrightarrow>
         settle Rejected s'
           = s'\<lparr>inflight := rest, status := ''Error: Failed to save changes.'',
                isSaving := False\<rparr>)"
proof -
  have clear: "\<not> isSaving (settle out s')" if "0 < length (inflight s')" for s'
    using that
    by (cases "inflight s'"; cases out)
       (auto simp: settle_def saveToFirestore_resume_def)
  have rej: "settle Rejected s'
       = s'\<lparr>inflight := rest, status := ''Error: Failed to save changes.'', isSaving := False\<rparr>"
    if "inflight s' = (sid, call) # rest" for s' sid call rest
    using that by (simp add: settle_def saveToFirestore_resume_def)
  have first: "case getSnippetDocRef (appId s) (e_db e) (e_snippetId e) of
      Inl err \<Rightarrow> saveToFirestore e c s = s
    | Inr ref \<Rightarrow>
        isSaving (saveToFirestore e c s)
        \<and> (\<exists>s1. isSaving s1 \<and> inflight s1 = inflight s \<and> store s1 = store s
               \<and> code s1 = code s
               \<and> saveToFirestore e c s =
                   setDoc (e_snippetId e)
                     \<lparr> call_ref = ref,
                       call_data =
                         [(''content'', c),
                          (''lastEditedBy'',
                           (case e_userId e of None \<Rightarrow> JNull | Some u \<Rightarrow> JStr u)),
                          (''timestamp'', JServerTimestamp)],
                       call_merge = True \<rparr> s1)
        \<and> \<not> isSaving (settle out (saveToFirestore e c s))"
  proof (cases "getSnippetDocRef (appId s) (e_db e) (e_snippetId e)")
    case (Inl err)
    then show ?thesis by (simp add: saveToFirestore_def)
  next
    case (Inr ref)
    have eq: "saveToFirestore e c s
        = s\<lparr>isSaving := True, status := ''Saving changes to Firestore...'',
            inflight := inflight s @ [saveCall ref (e_snippetId e) (e_userId e) c]\<rparr>"
      using Inr by (rule saveToFirestore_accepted)
    have a: "isSaving (saveToFirestore e c s)" by (simp add: eq)
    have b: "\<exists>s1. isSaving s1 \<and> inflight s1 = inflight s \<and> store s1 = store s
               \<and> code s1 = code s
               \<and> saveToFirestore e c s =
                   setDoc (e_snippetId e)
                     \<lparr> call_ref = ref,
                       call_data =
                         [(''content'', c),
                          (''lastEditedBy'',
                           (case e_userId e of None \<Rightarrow> JNull | Some u \<Rightarrow> JStr u)),
                          (''timestamp'', JServerTimestamp)],
                       call_merge = True \<rparr> s1"
      by (rule exI[of _ "s\<lparr>isSaving := True, status := ''Saving changes to Firestore...''\<rparr>"])
         (simp add: eq setDoc_def saveCall_def)
    have c: "\<not> isSaving (settle out (saveToFirestore e c s))"
      by (rule clear) (simp add: eq)
    show ?thesis using Inr a b c by simp
  qed
  show ?thesis using first clear rej by blast
qed

theorem saveToFirestore_flag_witness:
  "getSnippetDocRef (appId signedIn) (e_db (render signedIn)) (e_snippetId (render signedIn))
     = Inr [''artifacts'', ''default-collaboration-app'', ''public'', ''data'', ''snippets'',
            ''welcome-snippet'']
   \<and> isSaving (saveToFirestore (render signedIn) (JStr ''x'') signedIn)
   \<and> \<not> isSaving (settle (Resolved 7) (saveToFirestore (render signedIn) (JStr ''x'') signedIn))
   \<and> 0 < length (inflight saving) \<and> \<not> isSaving (settle Rejected saving)"
proof -
  have r: "getSnippetDocRef (appId signedIn) (e_db (render signedIn))
             (e_snippetId (render signedIn))
     = Inr [''artifacts'', ''default-collaboration-app'', ''public'', ''data'', ''snippets'',
            ''welcome-snippet'']"
    by (simp add: render_def signedIn_simps appId_def default_refs)
  have l: "0 < length (inflight saving)"
    by (simp add: saving_def signedIn_def app_defs default_refs)
  show ?thesis
    using saveToFirestore_flag[where s = signedIn and e = "render signedIn"
          and c = "JStr ''x''" and out = "Resolved 7"]
      saveToFirestore_flag[where s = signedIn and e = "render signedIn"
          and c = "JStr ''x''" and out = Rejected] r l
    by simp
qed

text \<open>
  C5. Room validation, evaluated on the code. \<open>onChange\<close> of the room input makes every
  typed text the current room at once and re-subscribes; \<open>handleRoomChange\<close> only runs on
  blur, on a candidate that already is the current room. A signed-in client types \<open>a b\<close>
  and leaves the input: the candidate is rejected and the status reports it, but the room
  is \<open>a b\<close>, the listener listens to \<open>a b\<close>, and when the store reports that document
  absent the client writes it. Typing \<open>../etc\<close> makes the effect throw and the component
  is removed.
\<close>

theorem room_input_bypasses_validation:
  "\<not> validRoomId (trim ''a b'')
   \<and> status (roomInputOnBlur (roomInputOnChange ''a b'' signedIn))
       = ''Room ID must be alphanumeric/hyphenated and non-empty.''
   \<and> snippetId (roomInputOnBlur (roomInputOnChange ''a b'' signedIn)) = ''a b''
   \<and> map_option e_snippetId (listener (roomInputOnBlur (roomInputOnChange ''a b'' signedIn)))
       = Some ''a b''
   \<and> inflight (notify None (roomInputOnBlur (roomInputOnChange ''a b'' signedIn)))
       = [saveCall [''artifacts'', ''default-collaboration-app'', ''public'', ''data'',
                    ''snippets'', ''a b'']
            ''a b'' (Some ''u1'') initialCode]
   \<and> \<not> validRoomId (trim ''../etc'')
   \<and> snippetId (roomInputOnChange ''../etc'' signedIn) = ''../etc''
   \<and> \<not> mounted (roomInputOnChange ''../etc'' signedIn)"
proof -
  have t: "trim ''a b'' = ''a b''" "trim ''../etc'' = ''../etc''"
    by (simp_all add: trim_def isWhiteSpace_def)
  have v: "\<not> validRoomId (trim ''a b'')" "\<not> validRoomId (trim ''../etc'')"
    unfolding t by (simp_all add: validRoomId_def roomAlphabet_def)
  have c: "roomInputOnChange ''a b'' signedIn
      = signedIn\<lparr>snippetId := ''a b'', status := ''Subscribing to room: a b'',
          listener := Some (render (signedIn\<lparr>snippetId := ''a b''\<rparr>))\<rparr>"
    by (simp add: signedIn_def app_defs default_refs)
  have b: "roomInputOnBlur (roomInputOnChange ''a b'' signedIn)
      = (roomInputOnChange ''a b'' signedIn)
          \<lparr>status := ''Room ID must be alphanumeric/hyphenated and non-empty.''\<rparr>"
    using handleRoomChange_validates[of "''a b''" "roomInputOnChange ''a b'' signedIn"] v(1)
    by (simp add: roomInputOnBlur_def roomInputOnChange_sets_room)
  have bc: "roomInputOnBlur (roomInputOnChange ''a b'' signedIn)
      = signedIn\<lparr>snippetId := ''a b'',
          status := ''Room ID must be alphanumeric/hyphenated and non-empty.'',
          listener := Some (render (signedIn\<lparr>snippetId := ''a b''\<rparr>))\<rparr>"
    using b c by simp
  have n: "inflight (notify None (roomInputOnBlur (roomInputOnChange ''a b'' signedIn)))
       = [saveCall [''artifacts'', ''default-collaboration-app'', ''public'', ''data'',
                    ''snippets'', ''a b'']
            ''a b'' (Some ''u1'') initialCode]"
    unfolding bc
    by (simp add: signedIn_def app_defs default_refs saveCall_def)
  have e: "snippetId (roomInputOnChange ''../etc'' signedIn) = ''../etc''"
      "\<not> mounted (roomInputOnChange ''../etc'' signedIn)"
    by (simp_all add: signedIn_def app_defs default_refs)
  show ?thesis using v n e by (simp add: bc render_def)
qed


text \<open>
  C6 (amended). Optimistic local echo. A call of \<open>handleSaveCode\<close> in debounced mode whose
  \<open>db\<close> and \<open>userId\<close> are set makes the new content the buffer at once and schedules its
  save 1000 time units ahead; nothing else changes.
\<close>

theorem local_echo:
  "e_db e \<noteq> None \<Longrightarrow> \<not> noUser (e_userId e) \<Longrightarrow>
   handleSaveCode e newCode True s = s\<lparr>code := newCode, saveTimer := Some (1000, e, newCode)\<rparr>"
  by (auto simp: handleSaveCode_def)

theorem local_echo_witness:
  "e_db (render signedIn) \<noteq> None \<and> \<not> noUser (e_userId (render signedIn))
   \<and> code (editorOnChange (JStr ''x'') signedIn) = JStr ''x''
   \<and> saveTimer (editorOnChange (JStr ''x'') signedIn) = Some (1000, render signedIn, JStr ''x'')
   \<and> inflight (editorOnChange (JStr ''x'') signedIn) = []"
  using local_echo[of "render signedIn" "JStr ''x''" signedIn]
  by (simp add: editorOnChange_def render_def signedIn_simps)

text \<open>As stated, for every call, C6 fails: once the authentication state has changed back
  to no user the editor is still shown, and an edit neither reaches the buffer nor is
  scheduled.\<close>

theorem local_echo_counterexample:
  "isInitialized signedOut \<and> mounted signedOut
   \<and> code (editorOnChange (JStr ''x'') signedOut) \<noteq> JStr ''x''
   \<and> saveTimer (editorOnChange (JStr ''x'') signedOut) = None"
  by (simp add: signedOut_simps editorOnChange_def handleSaveCode_def render_def
        initialCode_def)

text \<open>
  C7 (amended). Room switch and unmount. The client is subscribed to a room whose path
  the SDK accepts, and an edit has scheduled a save. Unmounting removes the listener;
  switching to another room replaces it by a listener for the new room, or by none when
  the SDK refuses the new room. In both cases the pending timeout stays as it was
  scheduled, and when it fires it issues one write to the room that was current when the
  edit was made, not to the new room.
\<close>

theorem teardown:
  assumes "db s \<noteq> None" "\<not> noUser (userId s)" "v \<noteq> snippetId s"
    "getSnippetDocRef (appId s) (db s) (snippetId s) = Inr ref"
  shows "listener (unmount (editorOnChange c s)) = None
       \<and> saveTimer (unmount (editorOnChange c s)) = Some (1000, render s, c)
       \<and> inflight (advance 1000 (unmount (editorOnChange c s)))
           = inflight s @ [saveCall ref (snippetId s) (userId s) c]
       \<and> snippetId (setSnippetId v (editorOnChange c s)) = v
       \<and> map_option e_snippetId (listener (setSnippetId v (editorOnChange c s)))
           = (case getSnippetDocRef (appId s) (db s) v of
                Inl err \<Rightarrow> None | Inr r \<Rightarrow> Some v)
       \<and> saveTimer (setSnippetId v (editorOnChange c s)) = Some (1000, render s, c)
       \<and> inflight (advance 1000 (setSnippetId v (editorOnChange c s)))
           = inflight s @ [saveCall ref (snippetId s) (userId s) c]"
proof -
  have ed: "editorOnChange c s = s\<lparr>code := c, saveTimer := Some (1000, render s, c)\<rparr>"
    using assms(1,2) by (auto simp: editorOnChange_def handleSaveCode_def render_def)
  have fire: "inflight (advance 1000 s') = inflight s @ [saveCall ref (snippetId s) (userId s) c]"
    if "saveTimer s' = Some (1000, render s, c)" "global_app_id s' = global_app_id s"
       "inflight s' = inflight s" for s'
  proof -
    have "getSnippetDocRef (appId (s'\<lparr>saveTimer := None\<rparr>)) (e_db (render s))
            (e_snippetId (render s)) = Inr ref"
      using assms(4) that(2) by (simp add: appId_def render_def)
    from saveToFirestore_accepted[OF this] show ?thesis
      using that by (simp add: advance_def render_def)
  qed
  have sw: "setSnippetId v (editorOnChange c s)
      = (case getSnippetDocRef (appId s) (db s) v of
           Inl err \<Rightarrow>
             s\<lparr>code := c, saveTimer := Some (1000, render s, c), snippetId := v,
               listener := None, status := ''Subscribing to room: '' @ v, mounted := False\<rparr>
         | Inr r \<Rightarrow>
             s\<lparr>code := c, saveTimer := Some (1000, render s, c), snippetId := v,
               status := ''Subscribing to room: '' @ v,
               listener := Some (render (s\<lparr>code := c, snippetId := v\<rparr>))\<rparr>)"
    using assms(1,2,3)
    by (auto simp: ed setSnippetId_def rerender_def subscriptionEffect_def unmount_def
          appId_def render_def Let_def split: sum.splits)
  have un: "unmount (editorOnChange c s)
      = s\<lparr>code := c, saveTimer := Some (1000, render s, c), listener := None,
          mounted := False\<rparr>"
    by (simp add: ed unmount_def)
  have 1: "listener (unmount (editorOnChange c s)) = None"
    and 2: "saveTimer (unmount (editorOnChange c s)) = Some (1000, render s, c)"
    by (simp_all add: un)
  have 3: "inflight (advance 1000 (unmount (editorOnChange c s)))
           = inflight s @ [saveCall ref (snippetId s) (userId s) c]"
    by (rule fire) (simp_all add: un)
  have 4: "snippetId (setSnippetId v (editorOnChange c s)) = v"
    and 5: "map_option e_snippetId (listener (setSnippetId v (editorOnChange c s)))
           = (case getSnippetDocRef (appId s) (db s) v of
                Inl err \<Rightarrow> None | Inr r \<Rightarrow> Some v)"
    and 6: "saveTimer (setSnippetId v (editorOnChange c s)) = Some (1000, render s, c)"
    by (simp_all add: sw render_def split: sum.splits)
  have 7: "inflight (advance 1000 (setSnippetId v (editorOnChange c s)))
           = inflight s @ [saveCall ref (snippetId s) (userId s) c]"
    by (rule fire) (simp_all add: sw split: sum.splits)
  show ?thesis using 1 2 3 4 5 6 7 by blast
qed

theorem teardown_witness:
  "db signedIn \<noteq> None \<and> \<not> noUser (userId signedIn) \<and> ''room-2'' \<noteq> snippetId signedIn
   \<and> getSnippetDocRef (appId signedIn) (db signedIn) (snippetId signedIn)
       = Inr [''artifacts'', ''default-collaboration-app'', ''public'', ''data'', ''snippets'',
              ''welcome-snippet'']
   \<and> snippetId (setSnippetId ''room-2'' (editorOnChange (JStr ''x'') signedIn)) = ''room-2''
   \<and> map_option e_snippetId
        (listener (setSnippetId ''room-2'' (editorOnChange (JStr ''x'') signedIn)))
       = Some ''room-2''
   \<and> inflight (advance 1000 (setSnippetId ''room-2'' (editorOnChange (JStr ''x'') signedIn)))
       = [saveCall [''artifacts'', ''default-collaboration-app'', ''public'', ''data'',
                    ''snippets'', ''welcome-snippet'']
            ''welcome-snippet'' (Some ''u1'') (JStr ''x'')]
   \<and> inflight (advance 1000 (unmount (editorOnChange (JStr ''x'') signedIn)))
       = [saveCall [''artifacts'', ''default-collaboration-app'', ''public'', ''data'',
                    ''snippets'', ''welcome-snippet'']
            ''welcome-snippet'' (Some ''u1'') (JStr ''x'')]"
  using teardown[of signedIn "''room-2''"
      "[''artifacts'', ''default-collaboration-app'', ''public'', ''data'', ''snippets'',
        ''welcome-snippet'']" "JStr ''x''"]
  by (simp add: signedIn_simps appId_def default_refs)

text \<open>As stated C7 fails: neither the room switch nor the unmount cancels the timeout.\<close>

theorem teardown_counterexample:
  "saveTimer (roomInputOnChange ''room-2'' (editorOnChange (JStr ''x'') signedIn)) \<noteq> None
   \<and> saveTimer (unmount (editorOnChange (JStr ''x'') signedIn)) \<noteq> None"
  by (simp add: signedIn_def app_defs default_refs)


text \<open>
  C8. Persisted layout. Every commit that is issued writes to the document denoted by the
  path \<open>artifacts/{appId}/public/data/snippets/{snippetId}\<close>, a function of the namespace
  and the room identifier alone, with exactly the fields \<open>content\<close>, \<open>lastEditedBy\<close> (the
  user) and \<open>timestamp\<close> (the server-timestamp sentinel), and with \<open>merge\<close>. Applying the
  write gives the former document at that path (the empty one if there was none) with
  those three fields set, the timestamp being the server's time; no other field and no
  other document changes, and that is what a resolved write does to the store. When the
  namespace and the room identifier are one path segment each, as every valid room
  identifier is, the path is the six segments \<open>artifacts\<close>, the namespace, \<open>public\<close>,
  \<open>data\<close>, \<open>snippets\<close> and the room identifier, and the commit is issued. The
  namespace is the global \<open>__app_id\<close>, or \<open>default-collaboration-app\<close> without it.
\<close>

theorem persisted_layout:
  "(case getSnippetDocRef (appId s) (e_db e) (e_snippetId e) of
      Inl err \<Rightarrow> inflight (saveToFirestore e c s) = inflight s
    | Inr ref \<Rightarrow>
        ref = pathSegments (''artifacts/'' @ appId s @ ''/public/data/snippets/'' @ e_snippetId e)
        \<and> inflight (saveToFirestore e c s)
            = inflight s @
              [(e_snippetId e,
                \<lparr> call_ref = ref,
                  call_data =
                    [(''content'', c),
                     (''lastEditedBy'',
                      (case e_userId e of None \<Rightarrow> JNull | Some u \<Rightarrow> JStr u)),
                     (''timestamp'', JServerTimestamp)],
                  call_merge = True \<rparr>)]
        \<and> (\<forall>st. applySetDoc t
                    \<lparr> call_ref = ref,
                      call_data =
                        [(''content'', c),
                         (''lastEditedBy'',
                          (case e_userId e of None \<Rightarrow> JNull | Some u \<Rightarrow> JStr u)),
                         (''timestamp'', JServerTimestamp)],
                      call_merge = True \<rparr> st
                  = st(ref \<mapsto>
                       (case st ref of None \<Rightarrow> Map.empty | Some d \<Rightarrow> d)
                       (''content'' \<mapsto> stored t c,
                        ''lastEditedBy'' \<mapsto>
                          (case e_userId e of None \<Rightarrow> JNull | Some u \<Rightarrow> JStr u),
                        ''timestamp'' \<mapsto> JTimestamp t))))
   \<and> (\<forall>s' sid call rest.
         inflight s' = (sid, call) # rest \<longrightarrow>
         store (settle (Resolved t) s') = applySetDoc t call (store s'))
   \<and> (e_db e \<noteq> None \<and> oneSegment (appId s) \<and> oneSegment (e_snippetId e) \<longrightarrow>
         getSnippetDocRef (appId s) (e_db e) (e_snippetId e)
           = Inr [''artifacts'', appId s, ''public'', ''data'', ''snippets'', e_snippetId e])
   \<and> (validRoomId (e_snippetId e) \<longrightarrow> oneSegment (e_snippetId e))
   \<and> appId s = (case global_app_id s of None \<Rightarrow> ''default-collaboration-app'' | Some a \<Rightarrow> a)"
proof -
  let ?uid = "case e_userId e of None \<Rightarrow> JNull | Some u \<Rightarrow> JStr u"
  have u: "stored t ?uid = ?uid" by (cases "e_userId e") simp_all
  have ap: "applySetDoc t
              \<lparr> call_ref = ref,
                call_data = [(''content'', c), (''lastEditedBy'', ?uid),
                             (''timestamp'', JServerTimestamp)],
                call_merge = True \<rparr> st
            = st(ref \<mapsto>
                 (case st ref of None \<Rightarrow> Map.empty | Some d \<Rightarrow> d)
                 (''content'' \<mapsto> stored t c, ''lastEditedBy'' \<mapsto> ?uid,
                  ''timestamp'' \<mapsto> JTimestamp t))" for ref st
    by (cases "st ref") (simp_all add: applySetDoc_def u)
  have first: "case getSnippetDocRef (appId s) (e_db e) (e_snippetId e) of
      Inl err \<Rightarrow> inflight (saveToFirestore e c s) = inflight s
    | Inr ref \<Rightarrow>
        ref = pathSegments (''artifacts/'' @ appId s @ ''/public/data/snippets/'' @ e_snippetId e)
        \<and> inflight (saveToFirestore e c s)
            = inflight s @
              [(e_snippetId e,
                \<lparr> call_ref = ref,
                  call_data = [(''content'', c), (''lastEditedBy'', ?uid),
                               (''timestamp'', JServerTimestamp)],
                  call_merge = True \<rparr>)]
        \<and> (\<forall>st. applySetDoc t
                    \<lparr> call_ref = ref,
                      call_data = [(''content'', c), (''lastEditedBy'', ?uid),
                                   (''timestamp'', JServerTimestamp)],
                      call_merge = True \<rparr> st
                  = st(ref \<mapsto>
                       (case st ref of None \<Rightarrow> Map.empty | Some d \<Rightarrow> d)
                       (''content'' \<mapsto> stored t c, ''lastEditedBy'' \<mapsto> ?uid,
                        ''timestamp'' \<mapsto> JTimestamp t)))"
  proof (cases "getSnippetDocRef (appId s) (e_db e) (e_snippetId e)")
    case (Inl err)
    then show ?thesis by (simp add: saveToFirestore_def)
  next
    case (Inr ref)
    have "ref = pathSegments (''artifacts/'' @ appId s @ ''/public/data/snippets/''
                                @ e_snippetId e)"
      using Inr by (rule getSnippetDocRef_path)
    moreover have "inflight (saveToFirestore e c s)
            = inflight s @
              [(e_snippetId e,
                \<lparr> call_ref = ref,
                  call_data = [(''content'', c), (''lastEditedBy'', ?uid),
                               (''timestamp'', JServerTimestamp)],
                  call_merge = True \<rparr>)]"
      by (simp add: saveToFirestore_accepted[OF Inr] saveCall_def)
    ultimately show ?thesis using Inr ap by simp
  qed
  have res: "store (settle (Resolved t) s') = applySetDoc t call (store s')"
    if "inflight s' = (sid, call) # rest" for s' sid call rest
    using that by (simp add: settle_def saveToFirestore_resume_def)
  have six: "getSnippetDocRef (appId s) (e_db e) (e_snippetId e)
           = Inr [''artifacts'', appId s, ''public'', ''data'', ''snippets'', e_snippetId e]"
    if "e_db e \<noteq> None \<and> oneSegment (appId s) \<and> oneSegment (e_snippetId e)"
    using that by (simp add: getSnippetDocRef_single)
  have ns: "appId s = (case global_app_id s of None \<Rightarrow> ''default-collaboration-app''
                       | Some a \<Rightarrow> a)"
    by (simp add: appId_def)
  show ?thesis using first res six validRoomId_oneSegment ns by blast
qed

theorem persisted_layout_witness:
  "e_db (render signedIn) \<noteq> None \<and> oneSegment (appId signedIn)
   \<and> validRoomId (e_snippetId (render signedIn))
   \<and> getSnippetDocRef (appId signedIn) (e_db (render signedIn)) (e_snippetId (render signedIn))
       = Inr [''artifacts'', ''default-collaboration-app'', ''public'', ''data'', ''snippets'',
              ''welcome-snippet'']
   \<and> inflight (saveToFirestore (render signedIn) (JStr ''x'') signedIn)
       = [(''welcome-snippet'',
           \<lparr> call_ref = [''artifacts'', ''default-collaboration-app'', ''public'', ''data'',
                          ''snippets'', ''welcome-snippet''],
             call_data = [(''content'', JStr ''x''), (''lastEditedBy'', JStr ''u1''),
                          (''timestamp'', JServerTimestamp)],
             call_merge = True \<rparr>)]
   \<and> store (settle (Resolved 7) (saveToFirestore (render signedIn) (JStr ''x'') signedIn))
        [''artifacts'', ''default-collaboration-app'', ''public'', ''data'', ''snippets'',
         ''welcome-snippet'']
       = Some [''content'' \<mapsto> JStr ''x'', ''lastEditedBy'' \<mapsto> JStr ''u1'',
               ''timestamp'' \<mapsto> JTimestamp 7]"
proof -
  have a: "e_db (render signedIn) \<noteq> None" "oneSegment (appId signedIn)"
      "validRoomId (e_snippetId (render signedIn))"
    by (simp_all add: render_def signedIn_simps appId_def oneSegment_def validRoomId_def
          roomAlphabet_def)
  have r: "getSnippetDocRef (appId signedIn) (e_db (render signedIn))
             (e_snippetId (render signedIn))
       = Inr [''artifacts'', ''default-collaboration-app'', ''public'', ''data'', ''snippets'',
              ''welcome-snippet'']"
    by (simp add: render_def signedIn_simps appId_def default_refs)
  note p = persisted_layout[where s = signedIn and e = "render signedIn"
      and c = "JStr ''x''" and t = 7, unfolded r sum.case]
  have i: "inflight (saveToFirestore (render signedIn) (JStr ''x'') signedIn)
       = [(''welcome-snippet'',
           \<lparr> call_ref = [''artifacts'', ''default-collaboration-app'', ''public'', ''data'',
                          ''snippets'', ''welcome-snippet''],
             call_data = [(''content'', JStr ''x''), (''lastEditedBy'', JStr ''u1''),
                          (''timestamp'', JServerTimestamp)],
             call_merge = True \<rparr>)]"
    using p by (simp add: render_def signedIn_simps)
  have "store (settle (Resolved 7) (saveToFirestore (render signedIn) (JStr ''x'') signedIn))
      = applySetDoc 7
          \<lparr> call_ref = [''artifacts'', ''default-collaboration-app'', ''public'', ''data'',
                         ''snippets'', ''welcome-snippet''],
            call_data = [(''content'', JStr ''x''), (''lastEditedBy'', JStr ''u1''),
                         (''timestamp'', JServerTimestamp)],
            call_merge = True \<rparr>
          (store (saveToFirestore (render signedIn) (JStr ''x'') signedIn))"
    using p i by blast
  moreover have "store (saveToFirestore (render signedIn) (JStr ''x'') signedIn) = Map.empty"
    by (simp add: signedIn_def app_defs default_refs)
  ultimately have st: "store (settle (Resolved 7)
            (saveToFirestore (render signedIn) (JStr ''x'') signedIn))
        [''artifacts'', ''default-collaboration-app'', ''public'', ''data'', ''snippets'',
         ''welcome-snippet'']
       = Some [''content'' \<mapsto> JStr ''x'', ''lastEditedBy'' \<mapsto> JStr ''u1'',
               ''timestamp'' \<mapsto> JTimestamp 7]"
    by (simp add: applySetDoc_def)
  show ?thesis using a r i st by blast
qed

text \<open>
  C9. A notification of an existing document whose \<open>content\<close> is missing or the empty
  string leaves the whole state, the buffer included, as it is, whatever \<open>isSaving\<close> is.
\<close>

theorem snapshot_empty_content_ignored:
  "data ''content'' = None \<or> data ''content'' = Some (JStr [])
   \<Longrightarrow> onSnapshotNext e (Some data) s = s \<and> notify (Some data) s = s"
  by (auto simp: onSnapshotNext_def notify_def split: option.splits)

theorem snapshot_empty_content_ignored_witness:
  "([''content'' \<mapsto> JStr []] ''content'' = None
      \<or> [''content'' \<mapsto> JStr []] ''content'' = Some (JStr []))
   \<and> isSaving signedIn = False
   \<and> notify (Some [''content'' \<mapsto> JStr []]) signedIn = signedIn"
  using snapshot_empty_content_ignored[of "[''content'' \<mapsto> JStr []]" "render signedIn" signedIn]
  by (simp add: signedIn_simps)

text \<open>
  C10. A call of \<open>handleSaveCode\<close> whose \<open>db\<close> or \<open>userId\<close> is still \<open>null\<close> does nothing:
  the buffer, the timer, the awaited writes and everything else stay as they are.
\<close>

theorem handleSaveCode_unauthenticated_noop:
  "e_db e = None \<or> e_userId e = None \<Longrightarrow> handleSaveCode e newCode debounce s = s"
  by (auto simp: handleSaveCode_def)

theorem handleSaveCode_unauthenticated_noop_witness:
  "(e_db (render (initialState None Map.empty)) = None
      \<or> e_userId (render (initialState None Map.empty)) = None)
   \<and> handleSaveCode (render (initialState None Map.empty)) (JStr ''x'') True
         (initialState None Map.empty) = initialState None Map.empty"
  using handleSaveCode_unauthenticated_noop
    [of "render (initialState None Map.empty)" "JStr ''x''" True "initialState None Map.empty"]
  by (simp add: render_def initialState_def)

end
